theory Spec2Isabelle
  imports Main
begin

section \<open>Values, promises and the observable trace\<close>

text \<open>
  The provisioning service of the webhook bridge (\<^verbatim>\<open>src/provisioning/ProvisioningService.js\<close>)
  authorizes a user against a room's power levels and then delegates to the webhook store.
  The model is a shallow embedding with explicit state passing: a promise is the value it
  settles to (or \<open>Pending\<close> when it never settles), and every call of a collaborator and of
  the log service is appended to a trace, so that "the store is never invoked" is a
  statement about that trace.

  One request is modelled at a time; interleavings of concurrent requests are outside the
  model. Power levels are integers, as the room state event carries them. The service
  checks nothing about the identifiers it is given, so they are arbitrary strings here.
\<close>

type_synonym room_id = string
type_synonym user_id = string
type_synonym hook_id = string

text \<open>The values a promise is rejected with: \<^verbatim>\<open>Promise.reject()\<close> carries \<^verbatim>\<open>undefined\<close>,
  the service rejects with a string, a collaborator with anything.\<close>

datatype jsval = JUndefined | JString string | JOther nat

datatype 'a promise = Resolved 'a | Rejected jsval | Pending

datatype level = Verbose | Info | Warn

datatype event =
    Log level string string
  | GetStateEvent room_id string string
  | StoreCreateWebhook room_id user_id
  | StoreListWebhooks room_id
  | StoreDeleteWebhook room_id hook_id

record 's world =
  trace :: "event list"
  storage :: 's

text \<open>The content of an \<^verbatim>\<open>m.room.power_levels\<close> event, as far as the service reads it. A
  field that the event lacks is \<open>None\<close> (\<^verbatim>\<open>undefined\<close> in the source).\<close>

record power_levels =
  users :: "(user_id \<rightharpoonup> int) option"
  users_default :: "int option"
  state_default :: "int option"

text \<open>The session handle: \<^verbatim>\<open>intent.getClient()\<close> with its account and its state reader.
  The reader resolves to the event content, or to nothing when the room has none.\<close>

record Intent =
  credentials_userId :: user_id
  getStateEvent :: "room_id \<Rightarrow> string \<Rightarrow> string \<Rightarrow> power_levels option promise"

text \<open>The service object. Its field \<^verbatim>\<open>_intent\<close> is unset until \<^verbatim>\<open>setClient\<close> is called.\<close>

record ProvisioningService =
  intent :: "Intent option"

text \<open>The module \<^verbatim>\<open>../storage/WebhookStore\<close> is a collaborator whose code is not part of
  the service; it is a parameter of the model: three operations on a store state \<open>'s\<close>,
  each returning the promise's outcome and the new store state.\<close>

record ('s, 'h) WebhookStore =
  store_createWebhook :: "room_id \<Rightarrow> user_id \<Rightarrow> 's \<Rightarrow> 'h promise \<times> 's"
  store_listWebhooks :: "room_id \<Rightarrow> 's \<Rightarrow> 'h list promise \<times> 's"
  store_deleteWebhook :: "room_id \<Rightarrow> hook_id \<Rightarrow> 's \<Rightarrow> jsval promise \<times> 's"

section \<open>JavaScript primitives the service relies on\<close>

text \<open>What reading a property of the event content gives: \<^verbatim>\<open>undefined\<close>, a number, or a
  member that the object inherits from \<^verbatim>\<open>Object.prototype\<close> (named by its key).\<close>

datatype property = PUndefined | PNumber int | PInherited string

text \<open>The keys that every plain object answers from \<^verbatim>\<open>Object.prototype\<close> in Node: eleven
  functions and the accessor \<^verbatim>\<open>__proto__\<close>, which yields the prototype object.\<close>

definition Object_prototype_members :: "string list" where
  "Object_prototype_members =
     [''constructor'', ''hasOwnProperty'', ''isPrototypeOf'', ''propertyIsEnumerable'',
      ''toLocaleString'', ''toString'', ''valueOf'', ''__defineGetter__'', ''__defineSetter__'',
      ''__lookupGetter__'', ''__lookupSetter__'', ''__proto__'']"

text \<open>\<^verbatim>\<open>obj[key]\<close> on a plain object whose own entries are \<open>m\<close>: an own entry first, then the
  prototype, then \<^verbatim>\<open>undefined\<close>.\<close>

definition get_property :: "(string \<rightharpoonup> int) \<Rightarrow> string \<Rightarrow> property" where
  "get_property m key =
     (case m key of
        Some n \<Rightarrow> PNumber n
      | None \<Rightarrow> (if key \<in> set Object_prototype_members then PInherited key else PUndefined))"

text \<open>Reading a field of the event content that holds a number or is absent.\<close>

definition field_value :: "int option \<Rightarrow> property" where
  "field_value v = (case v of None \<Rightarrow> PUndefined | Some n \<Rightarrow> PNumber n)"

text \<open>Truthiness: \<^verbatim>\<open>!v\<close> holds for \<^verbatim>\<open>undefined\<close> and for \<^verbatim>\<open>0\<close>; a function or an object is
  truthy.\<close>

definition falsy :: "property \<Rightarrow> bool" where
  "falsy v = (case v of PUndefined \<Rightarrow> True | PNumber n \<Rightarrow> n = 0 | PInherited _ \<Rightarrow> False)"

text \<open>\<^verbatim>\<open>a <= b\<close>: both sides are converted to numbers; \<^verbatim>\<open>undefined\<close>, a function and an object
  convert to \<^verbatim>\<open>NaN\<close>, and a comparison with \<^verbatim>\<open>NaN\<close> is false.\<close>

definition js_le :: "property \<Rightarrow> property \<Rightarrow> bool" where
  "js_le a b =
     (case a of
        PNumber x \<Rightarrow> (case b of PNumber y \<Rightarrow> x \<le> y | PUndefined \<Rightarrow> False | PInherited _ \<Rightarrow> False)
      | PUndefined \<Rightarrow> False
      | PInherited _ \<Rightarrow> False)"

fun string_of_nat :: "nat \<Rightarrow> string" where
  "string_of_nat n =
     (if n < 10 then [''0123456789'' ! n]
      else string_of_nat (n div 10) @ [''0123456789'' ! (n mod 10)])"

declare string_of_nat.simps [simp del]

text \<open>String concatenation with such a value: a number in decimal (as JavaScript
  prints an integer below \<open>10\<^sup>2\<^sup>1\<close> in absolute value), a function as its source text, the
  prototype object as \<^verbatim>\<open>[object Object]\<close>.\<close>

definition string_of_property :: "property \<Rightarrow> string" where
  "string_of_property v =
     (case v of
        PUndefined \<Rightarrow> ''undefined''
      | PNumber n \<Rightarrow> (if n < 0 then ''-'' @ string_of_nat (nat (- n)) else string_of_nat (nat n))
      | PInherited key \<Rightarrow>
          (if key = ''__proto__'' then ''[object Object]''
           else ''function '' @ key @ ''() { [native code] }''))"

definition string_of_bool :: "bool \<Rightarrow> string" where
  "string_of_bool b = (if b then ''true'' else ''false'')"

text \<open>\<^verbatim>\<open>p.then(onFulfilled)\<close> and \<^verbatim>\<open>p.then(onFulfilled, onRejected)\<close>. A handler returns a
  promise, which the result follows. With one handler a rejection passes through; with two,
  \<open>onRejected\<close> handles a rejection of \<open>p\<close> only, never one that \<open>onFulfilled\<close> returns.\<close>

definition then1 ::
  "'a promise \<times> 's world \<Rightarrow> ('a \<Rightarrow> 's world \<Rightarrow> 'b promise \<times> 's world) \<Rightarrow> 'b promise \<times> 's world"
where
  "then1 pw onFulfilled =
     (case pw of
        (Resolved v, w) \<Rightarrow> onFulfilled v w
      | (Rejected e, w) \<Rightarrow> (Rejected e, w)
      | (Pending, w) \<Rightarrow> (Pending, w))"

definition then2 ::
  "'a promise \<times> 's world \<Rightarrow> ('a \<Rightarrow> 's world \<Rightarrow> 'b promise \<times> 's world)
     \<Rightarrow> (jsval \<Rightarrow> 's world \<Rightarrow> 'b promise \<times> 's world) \<Rightarrow> 'b promise \<times> 's world"
where
  "then2 pw onFulfilled onRejected =
     (case pw of
        (Resolved v, w) \<Rightarrow> onFulfilled v w
      | (Rejected e, w) \<Rightarrow> onRejected e w
      | (Pending, w) \<Rightarrow> (Pending, w))"

section \<open>Collaborator calls\<close>

definition LogService :: "level \<Rightarrow> string \<Rightarrow> string \<Rightarrow> 's world \<Rightarrow> 's world" where
  "LogService l module msg w = w\<lparr>trace := trace w @ [Log l module msg]\<rparr>"

definition call_getStateEvent ::
  "Intent \<Rightarrow> room_id \<Rightarrow> string \<Rightarrow> string \<Rightarrow> 's world \<Rightarrow> power_levels option promise \<times> 's world"
where
  "call_getStateEvent i roomId eventType stateKey w =
     (getStateEvent i roomId eventType stateKey,
      w\<lparr>trace := trace w @ [GetStateEvent roomId eventType stateKey]\<rparr>)"

definition call_createWebhook ::
  "('s, 'h) WebhookStore \<Rightarrow> room_id \<Rightarrow> user_id \<Rightarrow> 's world \<Rightarrow> 'h promise \<times> 's world"
where
  "call_createWebhook st roomId userId w =
     (case store_createWebhook st roomId userId (storage w) of
        (r, s') \<Rightarrow> (r, w\<lparr>trace := trace w @ [StoreCreateWebhook roomId userId], storage := s'\<rparr>))"

definition call_listWebhooks ::
  "('s, 'h) WebhookStore \<Rightarrow> room_id \<Rightarrow> 's world \<Rightarrow> 'h list promise \<times> 's world"
where
  "call_listWebhooks st roomId w =
     (case store_listWebhooks st roomId (storage w) of
        (r, s') \<Rightarrow> (r, w\<lparr>trace := trace w @ [StoreListWebhooks roomId], storage := s'\<rparr>))"

definition call_deleteWebhook ::
  "('s, 'h) WebhookStore \<Rightarrow> room_id \<Rightarrow> hook_id \<Rightarrow> 's world \<Rightarrow> jsval promise \<times> 's world"
where
  "call_deleteWebhook st roomId hookId w =
     (case store_deleteWebhook st roomId hookId (storage w) of
        (r, s') \<Rightarrow> (r, w\<lparr>trace := trace w @ [StoreDeleteWebhook roomId hookId], storage := s'\<rparr>))"

section \<open>The provisioning service\<close>

text \<open>The constructor assigns the message once and nothing writes it again, so it is a
  constant here; the constructor leaves \<^verbatim>\<open>_intent\<close> unset.\<close>

definition PERMISSION_ERROR_MESSAGE :: string where
  "PERMISSION_ERROR_MESSAGE = ''User does not have permission to manage webhooks in this room''"

definition constructor :: ProvisioningService where
  "constructor = \<lparr>intent = None\<rparr>"

definition setClient ::
  "ProvisioningService \<Rightarrow> Intent \<Rightarrow> 's world \<Rightarrow> ProvisioningService \<times> 's world"
where
  "setClient svc i w =
     (svc\<lparr>intent := Some i\<rparr>,
      LogService Verbose ''ProvisioningService''
        (''Received intent. Using account '' @ credentials_userId i) w)"

text \<open>Lines 75 to 79 of the source: the user's power level, from the \<^verbatim>\<open>users\<close> object (an
  empty object when the snapshot has none), then \<^verbatim>\<open>users_default\<close>, then 0, each step taken
  when the value so far is falsy. The lookup \<^verbatim>\<open>userPowerLevels[userId]\<close> is a property read on
  a plain object, so a key such as \<^verbatim>\<open>toString\<close> that is no own entry finds the inherited
  member.\<close>

definition userPowerLevel :: "power_levels \<Rightarrow> user_id \<Rightarrow> property" where
  "userPowerLevel powerLevels userId =
     (let userPowerLevels = (case users powerLevels of None \<Rightarrow> Map.empty | Some m \<Rightarrow> m);
          powerLevel = get_property userPowerLevels userId;
          powerLevel = (if falsy powerLevel then field_value (users_default powerLevels)
                        else powerLevel);
          powerLevel = (if falsy powerLevel then PNumber 0 else powerLevel)
      in powerLevel)"

text \<open>The handler of the state reader's promise (lines 69 to 92).\<close>

definition checkPowerLevels ::
  "user_id \<Rightarrow> room_id \<Rightarrow> power_levels option \<Rightarrow> 's world \<Rightarrow> jsval promise \<times> 's world"
where
  "checkPowerLevels userId roomId powerLevels w =
     (case powerLevels of
        None \<Rightarrow>
          (Rejected JUndefined,
           LogService Warn ''ProvisioningService''
             (''Unable to check permission for '' @ userId @ '' in '' @ roomId
                @ '' because there is no powerlevel information in the room'') w)
      | Some pl \<Rightarrow>
          (let powerLevel = userPowerLevel pl userId;
               statePowerLevel = field_value (state_default pl)
           in if falsy statePowerLevel then
                (Rejected JUndefined,
                 LogService Warn ''ProvisioningService''
                   (''Unable to check permission for '' @ userId @ '' in '' @ roomId
                      @ '' because the powerlevel requirement is missing for state_default'') w)
              else
                (let hasPermission = js_le statePowerLevel powerLevel;
                     w' = LogService Verbose ''ProvisioningService''
                       (''User '' @ userId @ '' in room '' @ roomId @ '' has permission? ''
                          @ string_of_bool hasPermission @ '' (required powerlevel = ''
                          @ string_of_property statePowerLevel @ '', user powerlevel = ''
                          @ string_of_property powerLevel @ '')'') w
                 in (if hasPermission then Resolved JUndefined else Rejected JUndefined, w'))))"

definition hasPermission ::
  "ProvisioningService \<Rightarrow> user_id \<Rightarrow> room_id \<Rightarrow> 's world \<Rightarrow> jsval promise \<times> 's world"
where
  "hasPermission svc userId roomId w =
     (let w1 = LogService Verbose ''ProvisioningService''
                 (''Checking permission for '' @ userId @ '' in '' @ roomId) w
      in case intent svc of
           None \<Rightarrow>
             (Rejected JUndefined,
              LogService Warn ''ProvisioningService''
                (''Unable to check permission for '' @ userId @ '' in '' @ roomId
                   @ '' because there is no Intent assigned to this service'') w1)
         | Some i \<Rightarrow>
             then1 (call_getStateEvent i roomId ''m.room.power_levels'' '''' w1)
               (checkPowerLevels userId roomId))"

definition createWebhook ::
  "('s, 'h) WebhookStore \<Rightarrow> ProvisioningService \<Rightarrow> room_id \<Rightarrow> user_id \<Rightarrow> 's world
     \<Rightarrow> 'h promise \<times> 's world"
where
  "createWebhook st svc roomId userId w =
     (let w1 = LogService Info ''ProvisioningService''
                 (''Processing create hook request for '' @ roomId @ '' by '' @ userId) w
      in then2 (hasPermission svc userId roomId w1)
           (\<lambda>_. call_createWebhook st roomId userId)
           (\<lambda>_ w'. (Rejected (JString PERMISSION_ERROR_MESSAGE), w')))"

definition getWebhooks ::
  "('s, 'h) WebhookStore \<Rightarrow> ProvisioningService \<Rightarrow> room_id \<Rightarrow> user_id \<Rightarrow> 's world
     \<Rightarrow> 'h list promise \<times> 's world"
where
  "getWebhooks st svc roomId userId w =
     (let w1 = LogService Info ''ProvisioningService''
                 (''Processing list hooks request for '' @ roomId @ '' by '' @ userId) w
      in then2 (hasPermission svc userId roomId w1)
           (\<lambda>_. call_listWebhooks st roomId)
           (\<lambda>_ w'. (Rejected (JString PERMISSION_ERROR_MESSAGE), w')))"

definition deleteWebhook ::
  "('s, 'h) WebhookStore \<Rightarrow> ProvisioningService \<Rightarrow> room_id \<Rightarrow> user_id \<Rightarrow> hook_id \<Rightarrow> 's world
     \<Rightarrow> jsval promise \<times> 's world"
where
  "deleteWebhook st svc roomId userId hookId w =
     (let w1 = LogService Info ''ProvisioningService''
                 (''Processing delete hook ('' @ hookId @ '') request for '' @ roomId
                    @ '' by '' @ userId) w
      in then2 (hasPermission svc userId roomId w1)
           (\<lambda>_. call_deleteWebhook st roomId hookId)
           (\<lambda>_ w'. (Rejected (JString PERMISSION_ERROR_MESSAGE), w')))"

section \<open>Observations on the trace\<close>

text \<open>The calls of the webhook store, and of the room state reader, that a trace records.\<close>

definition is_store_call :: "event \<Rightarrow> bool" where
  "is_store_call e =
     (case e of
        StoreCreateWebhook _ _ \<Rightarrow> True
      | StoreListWebhooks _ \<Rightarrow> True
      | StoreDeleteWebhook _ _ \<Rightarrow> True
      | _ \<Rightarrow> False)"

definition is_reader_call :: "event \<Rightarrow> bool" where
  "is_reader_call e = (case e of GetStateEvent _ _ _ \<Rightarrow> True | _ \<Rightarrow> False)"

definition store_calls :: "event list \<Rightarrow> event list" where
  "store_calls t = filter is_store_call t"

definition reader_calls :: "event list \<Rightarrow> event list" where
  "reader_calls t = filter is_reader_call t"

text \<open>The root causes of a failed authorization that the specification lists, read off the
  service and the room's state: no session, no power-level state, a snapshot without
  \<^verbatim>\<open>state_default\<close>, or a level below \<^verbatim>\<open>state_default\<close>.\<close>

datatype failure_cause = NoSession | NoPowerLevels | MissingStateDefault | InsufficientLevel

definition has_cause :: "ProvisioningService \<Rightarrow> user_id \<Rightarrow> room_id \<Rightarrow> failure_cause \<Rightarrow> bool" where
  "has_cause svc userId roomId c =
     (case intent svc of
        None \<Rightarrow> c = NoSession
      | Some i \<Rightarrow>
          (case getStateEvent i roomId ''m.room.power_levels'' '''' of
             Resolved None \<Rightarrow> c = NoPowerLevels
           | Resolved (Some pl) \<Rightarrow>
               (case state_default pl of
                  None \<Rightarrow> c = MissingStateDefault
                | Some d \<Rightarrow> c = InsufficientLevel \<and> \<not> js_le (PNumber d) (userPowerLevel pl userId))
           | Rejected _ \<Rightarrow> False
           | Pending \<Rightarrow> False))"

section \<open>Test doubles\<close>

text \<open>A session whose reader answers every room with the same snapshot, an in-memory store
  that keeps its webhooks in a list, and a store whose every operation fails. They stand
  for the collaborators where a property is evaluated on concrete input.\<close>

definition reading :: "power_levels option \<Rightarrow> Intent" where
  "reading pl =
     \<lparr>credentials_userId = ''@_webhook:example.org'', getStateEvent = (\<lambda>_ _ _. Resolved pl)\<rparr>"

definition bound_to :: "power_levels option \<Rightarrow> ProvisioningService" where
  "bound_to pl = \<lparr>intent = Some (reading pl)\<rparr>"

definition snapshot :: "(user_id \<times> int) list \<Rightarrow> int option \<Rightarrow> int option \<Rightarrow> power_levels" where
  "snapshot us ud sd = \<lparr>users = Some (map_of us), users_default = ud, state_default = sd\<rparr>"

type_synonym hook = "hook_id \<times> room_id \<times> user_id"

definition memory_store :: "(hook list, hook) WebhookStore" where
  "memory_store =
     \<lparr>store_createWebhook =
        (\<lambda>roomId userId s.
           (Resolved (string_of_nat (length s), roomId, userId),
            s @ [(string_of_nat (length s), roomId, userId)])),
      store_listWebhooks =
        (\<lambda>roomId s. (Resolved (filter (\<lambda>h. fst (snd h) = roomId) s), s)),
      store_deleteWebhook =
        (\<lambda>roomId hookId s.
           (Resolved JUndefined, filter (\<lambda>h. \<not> (fst h = hookId \<and> fst (snd h) = roomId)) s))\<rparr>"

definition failing_store :: "jsval \<Rightarrow> (hook list, hook) WebhookStore" where
  "failing_store e =
     \<lparr>store_createWebhook = (\<lambda>roomId userId s. (Rejected e, s)),
      store_listWebhooks = (\<lambda>roomId s. (Rejected e, s)),
      store_deleteWebhook = (\<lambda>roomId hookId s. (Rejected e, s))\<rparr>"

definition empty_world :: "hook list world" where
  "empty_world = \<lparr>trace = [], storage = []\<rparr>"

definition alice :: user_id where
  "alice = ''@alice:example.org''"

definition lobby :: room_id where
  "lobby = ''!lobby:example.org''"

section \<open>Frame lemmas\<close>

lemma LogService_frame:
  "storage (LogService l m s w) = storage w"
  "store_calls (trace (LogService l m s w)) = store_calls (trace w)"
  "reader_calls (trace (LogService l m s w)) = reader_calls (trace w)"
  by (simp_all add: LogService_def store_calls_def reader_calls_def is_store_call_def
      is_reader_call_def)

lemma then2_Resolved: "fst pw = Resolved v \<Longrightarrow> then2 pw f g = f v (snd pw)"
  by (cases pw) (simp add: then2_def)

lemma then2_Rejected: "fst pw = Rejected e \<Longrightarrow> then2 pw f g = g e (snd pw)"
  by (cases pw) (simp add: then2_def)

lemma then1_Resolved: "fst pw = Resolved v \<Longrightarrow> then1 pw f = f v (snd pw)"
  by (cases pw) (simp add: then1_def)

lemma checkPowerLevels_outcome:
  "fst (checkPowerLevels userId roomId (Some pl) w) =
     (if falsy (field_value (state_default pl)) then Rejected JUndefined
      else if js_le (field_value (state_default pl)) (userPowerLevel pl userId)
        then Resolved JUndefined
      else Rejected JUndefined)"
  by (simp add: checkPowerLevels_def Let_def)

lemma checkPowerLevels_None:
  "fst (checkPowerLevels userId roomId None w) = Rejected JUndefined"
  by (simp add: checkPowerLevels_def)

lemma checkPowerLevels_frame:
  "storage (snd (checkPowerLevels userId roomId pl w)) = storage w"
  "store_calls (trace (snd (checkPowerLevels userId roomId pl w))) = store_calls (trace w)"
  "reader_calls (trace (snd (checkPowerLevels userId roomId pl w))) = reader_calls (trace w)"
  by (simp_all add: checkPowerLevels_def Let_def LogService_frame split: option.splits)

lemma hasPermission_unbound:
  "intent svc = None \<Longrightarrow>
   hasPermission svc userId roomId w =
     (Rejected JUndefined,
      LogService Warn ''ProvisioningService''
        (''Unable to check permission for '' @ userId @ '' in '' @ roomId
           @ '' because there is no Intent assigned to this service'')
        (LogService Verbose ''ProvisioningService''
           (''Checking permission for '' @ userId @ '' in '' @ roomId) w))"
  by (simp add: hasPermission_def Let_def)

lemma hasPermission_bound:
  "intent svc = Some i \<Longrightarrow>
   fst (hasPermission svc userId roomId w) =
     (case getStateEvent i roomId ''m.room.power_levels'' '''' of
        Resolved pl \<Rightarrow> fst (checkPowerLevels userId roomId pl w)
      | Rejected e \<Rightarrow> Rejected e
      | Pending \<Rightarrow> Pending)"
  by (cases "getStateEvent i roomId ''m.room.power_levels'' ''''")
     (simp_all add: hasPermission_def Let_def then1_def call_getStateEvent_def
       checkPowerLevels_def LogService_def split: option.splits)

lemma hasPermission_world: "fst (hasPermission svc userId roomId w) = fst (hasPermission svc userId roomId w')"
proof (cases "intent svc")
  case None
  then show ?thesis by (simp add: hasPermission_unbound)
next
  case (Some i)
  have "fst (checkPowerLevels userId roomId pl w) = fst (checkPowerLevels userId roomId pl w')" for pl
    by (cases pl) (simp_all add: checkPowerLevels_outcome checkPowerLevels_None)
  with Some show ?thesis
    by (simp add: hasPermission_bound split: promise.splits)
qed

lemma hasPermission_frame:
  "storage (snd (hasPermission svc userId roomId w)) = storage w"
  "store_calls (trace (snd (hasPermission svc userId roomId w))) = store_calls (trace w)"
proof -
  have "storage (snd (hasPermission svc userId roomId w)) = storage w
      \<and> store_calls (trace (snd (hasPermission svc userId roomId w))) = store_calls (trace w)"
  proof (cases "intent svc")
    case None
    then show ?thesis by (simp add: hasPermission_unbound LogService_frame)
  next
    case (Some i)
    show ?thesis
    proof (cases "getStateEvent i roomId ''m.room.power_levels'' ''''")
      case (Resolved pl)
      with Some show ?thesis
        by (simp add: hasPermission_def Let_def then1_def call_getStateEvent_def
            checkPowerLevels_frame)
           (simp add: LogService_def store_calls_def is_store_call_def)
    next
      case (Rejected e)
      with Some show ?thesis
        by (simp add: hasPermission_def Let_def then1_def call_getStateEvent_def
            LogService_def store_calls_def is_store_call_def)
    next
      case Pending
      with Some show ?thesis
        by (simp add: hasPermission_def Let_def then1_def call_getStateEvent_def
            LogService_def store_calls_def is_store_call_def)
    qed
  qed
  then show "storage (snd (hasPermission svc userId roomId w)) = storage w"
    and "store_calls (trace (snd (hasPermission svc userId roomId w))) = store_calls (trace w)"
    by simp_all
qed

lemma createWebhook_denied:
  assumes "fst (hasPermission svc userId roomId w) = Rejected e"
  shows "createWebhook st svc roomId userId w =
     (Rejected (JString PERMISSION_ERROR_MESSAGE),
      snd (hasPermission svc userId roomId
        (LogService Info ''ProvisioningService''
           (''Processing create hook request for '' @ roomId @ '' by '' @ userId) w)))"
proof -
  let ?w1 = "LogService Info ''ProvisioningService''
           (''Processing create hook request for '' @ roomId @ '' by '' @ userId) w"
  have "fst (hasPermission svc userId roomId ?w1) = Rejected e"
    using assms hasPermission_world [of svc userId roomId ?w1 w] by simp
  then show ?thesis
    by (simp add: createWebhook_def Let_def then2_Rejected)
qed

lemma getWebhooks_denied:
  assumes "fst (hasPermission svc userId roomId w) = Rejected e"
  shows "getWebhooks st svc roomId userId w =
     (Rejected (JString PERMISSION_ERROR_MESSAGE),
      snd (hasPermission svc userId roomId
        (LogService Info ''ProvisioningService''
           (''Processing list hooks request for '' @ roomId @ '' by '' @ userId) w)))"
proof -
  let ?w1 = "LogService Info ''ProvisioningService''
           (''Processing list hooks request for '' @ roomId @ '' by '' @ userId) w"
  have "fst (hasPermission svc userId roomId ?w1) = Rejected e"
    using assms hasPermission_world [of svc userId roomId ?w1 w] by simp
  then show ?thesis
    by (simp add: getWebhooks_def Let_def then2_Rejected)
qed

lemma deleteWebhook_denied:
  assumes "fst (hasPermission svc userId roomId w) = Rejected e"
  shows "deleteWebhook st svc roomId userId hookId w =
     (Rejected (JString PERMISSION_ERROR_MESSAGE),
      snd (hasPermission svc userId roomId
        (LogService Info ''ProvisioningService''
           (''Processing delete hook ('' @ hookId @ '') request for '' @ roomId
              @ '' by '' @ userId) w)))"
proof -
  let ?w1 = "LogService Info ''ProvisioningService''
           (''Processing delete hook ('' @ hookId @ '') request for '' @ roomId
              @ '' by '' @ userId) w"
  have "fst (hasPermission svc userId roomId ?w1) = Rejected e"
    using assms hasPermission_world [of svc userId roomId ?w1 w] by simp
  then show ?thesis
    by (simp add: deleteWebhook_def Let_def then2_Rejected)
qed

lemma createWebhook_allowed:
  assumes "fst (hasPermission svc userId roomId w) = Resolved v"
  shows "createWebhook st svc roomId userId w =
     call_createWebhook st roomId userId
       (snd (hasPermission svc userId roomId
         (LogService Info ''ProvisioningService''
            (''Processing create hook request for '' @ roomId @ '' by '' @ userId) w)))"
proof -
  let ?w1 = "LogService Info ''ProvisioningService''
           (''Processing create hook request for '' @ roomId @ '' by '' @ userId) w"
  have "fst (hasPermission svc userId roomId ?w1) = Resolved v"
    using assms hasPermission_world [of svc userId roomId ?w1 w] by simp
  then show ?thesis
    by (simp add: createWebhook_def Let_def then2_Resolved)
qed

lemma getWebhooks_allowed:
  assumes "fst (hasPermission svc userId roomId w) = Resolved v"
  shows "getWebhooks st svc roomId userId w =
     call_listWebhooks st roomId
       (snd (hasPermission svc userId roomId
         (LogService Info ''ProvisioningService''
            (''Processing list hooks request for '' @ roomId @ '' by '' @ userId) w)))"
proof -
  let ?w1 = "LogService Info ''ProvisioningService''
           (''Processing list hooks request for '' @ roomId @ '' by '' @ userId) w"
  have "fst (hasPermission svc userId roomId ?w1) = Resolved v"
    using assms hasPermission_world [of svc userId roomId ?w1 w] by simp
  then show ?thesis
    by (simp add: getWebhooks_def Let_def then2_Resolved)
qed

lemma deleteWebhook_allowed:
  assumes "fst (hasPermission svc userId roomId w) = Resolved v"
  shows "deleteWebhook st svc roomId userId hookId w =
     call_deleteWebhook st roomId hookId
       (snd (hasPermission svc userId roomId
         (LogService Info ''ProvisioningService''
            (''Processing delete hook ('' @ hookId @ '') request for '' @ roomId
               @ '' by '' @ userId) w)))"
proof -
  let ?w1 = "LogService Info ''ProvisioningService''
           (''Processing delete hook ('' @ hookId @ '') request for '' @ roomId
              @ '' by '' @ userId) w"
  have "fst (hasPermission svc userId roomId ?w1) = Resolved v"
    using assms hasPermission_world [of svc userId roomId ?w1 w] by simp
  then show ?thesis
    by (simp add: deleteWebhook_def Let_def then2_Resolved)
qed

lemma hasPermission_decision:
  assumes "intent svc = Some i"
    and "getStateEvent i roomId ''m.room.power_levels'' '''' = Resolved (Some pl)"
  shows "fst (hasPermission svc userId roomId w) =
     (if falsy (field_value (state_default pl)) then Rejected JUndefined
      else if js_le (field_value (state_default pl)) (userPowerLevel pl userId)
        then Resolved JUndefined
      else Rejected JUndefined)"
  using assms by (simp add: hasPermission_bound checkPowerLevels_outcome)

lemma hasPermission_nonzero_state_default:
  assumes "intent svc = Some i"
    and "getStateEvent i roomId ''m.room.power_levels'' '''' = Resolved (Some pl)"
    and "state_default pl = Some d" and "d \<noteq> 0"
  shows "(fst (hasPermission svc userId roomId w) = Resolved JUndefined)
           = (\<exists>l. userPowerLevel pl userId = PNumber l \<and> d \<le> l)"
    and "(fst (hasPermission svc userId roomId w) = Rejected JUndefined)
           = (\<not> (\<exists>l. userPowerLevel pl userId = PNumber l \<and> d \<le> l))"
  using assms
  by (auto simp: hasPermission_decision falsy_def js_le_def field_value_def
      split: property.splits)

lemmas concrete =
  bound_to_def reading_def snapshot_def userPowerLevel_def get_property_def field_value_def
  falsy_def js_le_def Object_prototype_members_def alice_def



lemma userPowerLevel_own_entry:
  "users pl = Some m \<Longrightarrow> m userId = Some n \<Longrightarrow> n \<noteq> 0 \<Longrightarrow> userPowerLevel pl userId = PNumber n"
  by (simp add: userPowerLevel_def get_property_def falsy_def)


section \<open>Claims\<close>

text \<open>
  C1. With a session bound and a snapshot that contains \<^verbatim>\<open>state_default\<close>, the check should
  succeed exactly when the user's level is at least \<^verbatim>\<open>state_default\<close>. The source tests
  \<^verbatim>\<open>!statePowerLevel\<close>, which also holds for the value 0: a room whose \<^verbatim>\<open>state_default\<close> is 0
  is treated as one that lacks it. Here the snapshot has \<^verbatim>\<open>state_default\<close> 0 and the user has
  level 100, and the check is rejected although 100 is at least 0. For every other value of
  \<^verbatim>\<open>state_default\<close> the equivalence holds (\<open>hasPermission_nonzero_state_default\<close>), and the
  rejection carries \<^verbatim>\<open>undefined\<close>.
\<close>
theorem hasPermission_rejects_zero_state_default:
  "state_default (snapshot [(alice, 100)] None (Some 0)) = Some 0
   \<and> userPowerLevel (snapshot [(alice, 100)] None (Some 0)) alice = PNumber 100
   \<and> fst (hasPermission (bound_to (Some (snapshot [(alice, 100)] None (Some 0)))) alice lobby
        empty_world) = Rejected JUndefined"
  by (simp add: hasPermission_decision [where i = "reading (Some (snapshot [(alice, 100)] None (Some 0)))"]
      concrete)

text \<open>
  C2. The level should be the user's own entry when there is one, and an own entry of 0
  should be used as it is. The source tests \<^verbatim>\<open>!powerLevel\<close>, which also holds for 0: the
  user's own entry 0 is replaced by \<^verbatim>\<open>users_default\<close>. Here the user's entry is 0,
  \<^verbatim>\<open>users_default\<close> and \<^verbatim>\<open>state_default\<close> are 50: the level the check uses is 50, and the
  user is permitted.
\<close>
theorem userPowerLevel_explicit_zero_falls_through:
  "userPowerLevel (snapshot [(alice, 0)] (Some 50) (Some 50)) alice = PNumber 50
   \<and> fst (hasPermission (bound_to (Some (snapshot [(alice, 0)] (Some 50) (Some 50)))) alice lobby
        empty_world) = Resolved JUndefined"
  by (simp add: hasPermission_decision [where i = "reading (Some (snapshot [(alice, 0)] (Some 50) (Some 50)))"]
      concrete)

text \<open>
  C3. The three test vectors of the specification. The first (own level 50, default 10,
  required 50) resolves and the second (no entry, default 10, required 50) is rejected, as
  specified. The third (no entry, no default, required 0) is rejected by the source, where
  the specification expects it to be permitted: \<^verbatim>\<open>state_default\<close> 0 is taken for a missing
  value.
\<close>
theorem hasPermission_test_vectors:
  "fst (hasPermission (bound_to (Some (snapshot [(alice, 50)] (Some 10) (Some 50)))) alice lobby
        empty_world) = Resolved JUndefined
   \<and> fst (hasPermission (bound_to (Some (snapshot [] (Some 10) (Some 50)))) alice lobby
        empty_world) = Rejected JUndefined
   \<and> fst (hasPermission (bound_to (Some (snapshot [] None (Some 0)))) alice lobby
        empty_world) = Rejected JUndefined"
  by (simp add: hasPermission_bound checkPowerLevels_outcome
      concrete)

text \<open>
  C4. Each of the four root causes (no session, no power-level state, no \<^verbatim>\<open>state_default\<close>,
  a level below \<^verbatim>\<open>state_default\<close>) makes the check reject, and whenever the check rejects,
  with whatever value, each of the three operations rejects with the one fixed
  permission-error message.
\<close>
theorem authorization_failure_single_message:
  "(has_cause svc userId roomId c \<longrightarrow> fst (hasPermission svc userId roomId w) = Rejected JUndefined)
   \<and> (fst (hasPermission svc userId roomId w) = Rejected e \<longrightarrow>
        fst (createWebhook st svc roomId userId w) = Rejected (JString PERMISSION_ERROR_MESSAGE)
      \<and> fst (getWebhooks st svc roomId userId w) = Rejected (JString PERMISSION_ERROR_MESSAGE)
      \<and> fst (deleteWebhook st svc roomId userId hookId w) = Rejected (JString PERMISSION_ERROR_MESSAGE))"
proof (intro conjI impI)
  assume c: "has_cause svc userId roomId c"
  show "fst (hasPermission svc userId roomId w) = Rejected JUndefined"
  proof (cases "intent svc")
    case None
    then show ?thesis by (simp add: hasPermission_unbound)
  next
    case (Some i)
    with c show ?thesis
      by (auto simp: has_cause_def hasPermission_bound checkPowerLevels_outcome
          checkPowerLevels_None falsy_def field_value_def
          split: promise.splits option.splits)
  qed
next
  assume r: "fst (hasPermission svc userId roomId w) = Rejected e"
  show "fst (createWebhook st svc roomId userId w) = Rejected (JString PERMISSION_ERROR_MESSAGE)"
    by (simp add: createWebhook_denied [OF r])
  show "fst (getWebhooks st svc roomId userId w) = Rejected (JString PERMISSION_ERROR_MESSAGE)"
    by (simp add: getWebhooks_denied [OF r])
  show "fst (deleteWebhook st svc roomId userId hookId w) = Rejected (JString PERMISSION_ERROR_MESSAGE)"
    by (simp add: deleteWebhook_denied [OF r])
qed

lemma has_cause_examples:
  "has_cause constructor alice lobby NoSession"
  "has_cause (bound_to None) alice lobby NoPowerLevels"
  "has_cause (bound_to (Some (snapshot [] (Some 10) None))) alice lobby MissingStateDefault"
  "has_cause (bound_to (Some (snapshot [] (Some 10) (Some 50)))) alice lobby InsufficientLevel"
  by (simp_all add: has_cause_def constructor_def concrete)

theorem authorization_failure_single_message_witness:
  "has_cause constructor alice lobby NoSession
   \<and> fst (createWebhook memory_store constructor lobby alice empty_world)
        = Rejected (JString PERMISSION_ERROR_MESSAGE)
   \<and> has_cause (bound_to None) alice lobby NoPowerLevels
   \<and> fst (getWebhooks memory_store (bound_to None) lobby alice empty_world)
        = Rejected (JString PERMISSION_ERROR_MESSAGE)
   \<and> has_cause (bound_to (Some (snapshot [] (Some 10) None))) alice lobby MissingStateDefault
   \<and> fst (deleteWebhook memory_store (bound_to (Some (snapshot [] (Some 10) None))) lobby alice
          ''0'' empty_world) = Rejected (JString PERMISSION_ERROR_MESSAGE)
   \<and> has_cause (bound_to (Some (snapshot [] (Some 10) (Some 50)))) alice lobby InsufficientLevel
   \<and> fst (createWebhook memory_store (bound_to (Some (snapshot [] (Some 10) (Some 50)))) lobby
          alice empty_world) = Rejected (JString PERMISSION_ERROR_MESSAGE)"
  using has_cause_examples
    authorization_failure_single_message [where svc = constructor and userId = alice
      and roomId = lobby and c = NoSession and w = empty_world and e = JUndefined
      and st = memory_store]
    authorization_failure_single_message [where svc = "bound_to None" and userId = alice
      and roomId = lobby and c = NoPowerLevels and w = empty_world and e = JUndefined
      and st = memory_store]
    authorization_failure_single_message [where userId = alice
      and svc = "bound_to (Some (snapshot [] (Some 10) None))"
      and roomId = lobby and c = MissingStateDefault and w = empty_world and e = JUndefined
      and st = memory_store and hookId = "''0''"]
    authorization_failure_single_message [where userId = alice
      and svc = "bound_to (Some (snapshot [] (Some 10) (Some 50)))"
      and roomId = lobby and c = InsufficientLevel and w = empty_world and e = JUndefined
      and st = memory_store]
  by blast

text \<open>
  C5. When the authorization check is rejected, none of the three operations calls the
  webhook store (the store calls recorded in the trace are those recorded before), and the
  store's state is the one before the call.
\<close>
theorem failed_authorization_never_touches_store:
  assumes "fst (hasPermission svc userId roomId w) = Rejected e"
  shows "storage (snd (createWebhook st svc roomId userId w)) = storage w
       \<and> store_calls (trace (snd (createWebhook st svc roomId userId w))) = store_calls (trace w)
       \<and> storage (snd (getWebhooks st svc roomId userId w)) = storage w
       \<and> store_calls (trace (snd (getWebhooks st svc roomId userId w))) = store_calls (trace w)
       \<and> storage (snd (deleteWebhook st svc roomId userId hookId w)) = storage w
       \<and> store_calls (trace (snd (deleteWebhook st svc roomId userId hookId w)))
           = store_calls (trace w)"
  by (simp add: createWebhook_denied [OF assms] getWebhooks_denied [OF assms]
      deleteWebhook_denied [OF assms] hasPermission_frame LogService_frame)

theorem failed_authorization_never_touches_store_witness:
  "fst (hasPermission (bound_to (Some (snapshot [(alice, 20)] (Some 10) (Some 50)))) alice lobby
      \<lparr>trace = [StoreCreateWebhook lobby ''@bob:example.org''],
       storage = [(''0'', lobby, ''@bob:example.org'')]\<rparr>) = Rejected JUndefined
   \<and> storage (snd (deleteWebhook memory_store
        (bound_to (Some (snapshot [(alice, 20)] (Some 10) (Some 50)))) lobby alice ''0''
        \<lparr>trace = [StoreCreateWebhook lobby ''@bob:example.org''],
         storage = [(''0'', lobby, ''@bob:example.org'')]\<rparr>))
       = [(''0'', lobby, ''@bob:example.org'')]
   \<and> store_calls (trace (snd (deleteWebhook memory_store
        (bound_to (Some (snapshot [(alice, 20)] (Some 10) (Some 50)))) lobby alice ''0''
        \<lparr>trace = [StoreCreateWebhook lobby ''@bob:example.org''],
         storage = [(''0'', lobby, ''@bob:example.org'')]\<rparr>)))
       = [StoreCreateWebhook lobby ''@bob:example.org'']"
proof -
  let ?svc = "bound_to (Some (snapshot [(alice, 20)] (Some 10) (Some 50)))"
  let ?w = "\<lparr>trace = [StoreCreateWebhook lobby ''@bob:example.org''],
       storage = [(''0'', lobby, ''@bob:example.org'')]\<rparr>"
  have r: "fst (hasPermission ?svc alice lobby ?w) = Rejected JUndefined"
    by (simp add: hasPermission_bound checkPowerLevels_outcome
      concrete)
  show ?thesis
    using r failed_authorization_never_touches_store [OF r, of memory_store "''0''"]
    by (simp add: store_calls_def is_store_call_def)
qed

text \<open>
  C6. With no session bound, each of the three operations rejects, and it calls neither the
  room state reader nor the webhook store: the trace gains no reader call and no store
  call, and the store's state is unchanged.
\<close>
theorem unbound_session_rejects_without_calls:
  assumes "intent svc = None"
  shows "fst (createWebhook st svc roomId userId w) = Rejected (JString PERMISSION_ERROR_MESSAGE)
       \<and> fst (getWebhooks st svc roomId userId w) = Rejected (JString PERMISSION_ERROR_MESSAGE)
       \<and> fst (deleteWebhook st svc roomId userId hookId w)
           = Rejected (JString PERMISSION_ERROR_MESSAGE)
       \<and> reader_calls (trace (snd (createWebhook st svc roomId userId w))) = reader_calls (trace w)
       \<and> reader_calls (trace (snd (getWebhooks st svc roomId userId w))) = reader_calls (trace w)
       \<and> reader_calls (trace (snd (deleteWebhook st svc roomId userId hookId w)))
           = reader_calls (trace w)
       \<and> store_calls (trace (snd (createWebhook st svc roomId userId w))) = store_calls (trace w)
       \<and> store_calls (trace (snd (getWebhooks st svc roomId userId w))) = store_calls (trace w)
       \<and> store_calls (trace (snd (deleteWebhook st svc roomId userId hookId w)))
           = store_calls (trace w)
       \<and> storage (snd (createWebhook st svc roomId userId w)) = storage w
       \<and> storage (snd (getWebhooks st svc roomId userId w)) = storage w
       \<and> storage (snd (deleteWebhook st svc roomId userId hookId w)) = storage w"
proof -
  have r: "fst (hasPermission svc userId roomId w) = Rejected JUndefined"
    using assms by (simp add: hasPermission_unbound)
  show ?thesis
    by (simp add: createWebhook_denied [OF r] getWebhooks_denied [OF r]
        deleteWebhook_denied [OF r] hasPermission_unbound [OF assms] LogService_frame)
qed

theorem unbound_session_rejects_without_calls_witness:
  "intent constructor = None
   \<and> createWebhook memory_store constructor lobby alice empty_world =
       (Rejected (JString PERMISSION_ERROR_MESSAGE),
        \<lparr>trace =
           [Log Info ''ProvisioningService''
              ''Processing create hook request for !lobby:example.org by @alice:example.org'',
            Log Verbose ''ProvisioningService''
              ''Checking permission for @alice:example.org in !lobby:example.org'',
            Log Warn ''ProvisioningService''
              (''Unable to check permission for @alice:example.org in !lobby:example.org''
                 @ '' because there is no Intent assigned to this service'')],
         storage = []\<rparr>)
   \<and> reader_calls (trace (snd (createWebhook memory_store constructor lobby alice empty_world))) = []
   \<and> store_calls (trace (snd (createWebhook memory_store constructor lobby alice empty_world))) = []"
proof -
  have u: "intent constructor = None"
    by (simp add: constructor_def)
  have "createWebhook memory_store constructor lobby alice empty_world =
       (Rejected (JString PERMISSION_ERROR_MESSAGE),
        \<lparr>trace =
           [Log Info ''ProvisioningService''
              ''Processing create hook request for !lobby:example.org by @alice:example.org'',
            Log Verbose ''ProvisioningService''
              ''Checking permission for @alice:example.org in !lobby:example.org'',
            Log Warn ''ProvisioningService''
              (''Unable to check permission for @alice:example.org in !lobby:example.org''
                 @ '' because there is no Intent assigned to this service'')],
         storage = []\<rparr>)"
    by (simp add: createWebhook_def hasPermission_def then2_def LogService_def Let_def
        constructor_def empty_world_def alice_def lobby_def)
  then show ?thesis
    using u unbound_session_rejects_without_calls [OF u, of memory_store lobby alice empty_world]
    by (simp add: empty_world_def reader_calls_def store_calls_def)
qed

text \<open>
  C7. As stated, a caller could tell the failure for a missing session from the failure
  for an insufficient level. The source rejects with \<^verbatim>\<open>Promise.reject()\<close> in both cases, and
  the operations replace both by the fixed message: the outcomes are equal, here for an
  unbound service and for a bound one whose user (default level 10) is below the required 50.
\<close>
theorem no_session_outcome_equals_insufficient_level:
  "fst (hasPermission constructor alice lobby empty_world)
     = fst (hasPermission (bound_to (Some (snapshot [] (Some 10) (Some 50)))) alice lobby
         empty_world)
   \<and> fst (createWebhook memory_store constructor lobby alice empty_world)
     = fst (createWebhook memory_store (bound_to (Some (snapshot [] (Some 10) (Some 50)))) lobby
         alice empty_world)
   \<and> fst (getWebhooks memory_store constructor lobby alice empty_world)
     = fst (getWebhooks memory_store (bound_to (Some (snapshot [] (Some 10) (Some 50)))) lobby
         alice empty_world)
   \<and> fst (deleteWebhook memory_store constructor lobby alice ''0'' empty_world)
     = fst (deleteWebhook memory_store (bound_to (Some (snapshot [] (Some 10) (Some 50)))) lobby
         alice ''0'' empty_world)"
proof -
  let ?low = "bound_to (Some (snapshot [] (Some 10) (Some 50)))"
  have a: "fst (hasPermission constructor alice lobby empty_world) = Rejected JUndefined"
    by (simp add: hasPermission_unbound constructor_def)
  have b: "fst (hasPermission ?low alice lobby empty_world) = Rejected JUndefined"
    by (simp add: hasPermission_bound checkPowerLevels_outcome
      concrete)
  show ?thesis
    by (simp add: a b createWebhook_denied [OF a] createWebhook_denied [OF b]
        getWebhooks_denied [OF a] getWebhooks_denied [OF b]
        deleteWebhook_denied [OF a] deleteWebhook_denied [OF b])
qed

text \<open>
  C7, as amended. The missing session is found by a check of its own, before any read of
  the room state: that run calls no reader and logs a warning that no Intent is assigned,
  whereas the run for an insufficient level reads the room state and then logs that the
  user has no permission, with the two levels (or, when the required level is 0, that
  \<^verbatim>\<open>state_default\<close> is missing). The outcomes do not differ: the check is rejected with \<^verbatim>\<open>undefined\<close> in both runs, and each
  of the three operations is rejected with the fixed permission-error message in both, so
  the result does not tell the two failures apart.
\<close>
theorem no_session_same_outcome_as_denied:
  assumes "intent svc = None"
    and "intent svc' = Some i"
    and "getStateEvent i roomId ''m.room.power_levels'' '''' = Resolved (Some pl)"
    and "state_default pl = Some d"
    and "\<not> js_le (PNumber d) (userPowerLevel pl userId)"
  shows "fst (hasPermission svc userId roomId w) = Rejected JUndefined
       \<and> fst (hasPermission svc' userId roomId w) = Rejected JUndefined
       \<and> fst (createWebhook st svc roomId userId w) = Rejected (JString PERMISSION_ERROR_MESSAGE)
       \<and> fst (createWebhook st svc' roomId userId w) = Rejected (JString PERMISSION_ERROR_MESSAGE)
       \<and> fst (getWebhooks st svc roomId userId w) = Rejected (JString PERMISSION_ERROR_MESSAGE)
       \<and> fst (getWebhooks st svc' roomId userId w) = Rejected (JString PERMISSION_ERROR_MESSAGE)
       \<and> fst (deleteWebhook st svc roomId userId hookId w)
           = Rejected (JString PERMISSION_ERROR_MESSAGE)
       \<and> fst (deleteWebhook st svc' roomId userId hookId w)
           = Rejected (JString PERMISSION_ERROR_MESSAGE)
       \<and> trace (snd (hasPermission svc userId roomId w)) =
           trace w @
             [Log Verbose ''ProvisioningService''
                (''Checking permission for '' @ userId @ '' in '' @ roomId),
              Log Warn ''ProvisioningService''
                (''Unable to check permission for '' @ userId @ '' in '' @ roomId
                   @ '' because there is no Intent assigned to this service'')]
       \<and> (\<exists>required level.
            trace (snd (hasPermission svc' userId roomId w)) =
              trace w @
                [Log Verbose ''ProvisioningService''
                   (''Checking permission for '' @ userId @ '' in '' @ roomId),
                 GetStateEvent roomId ''m.room.power_levels'' '''',
                 (if d = 0 then
                    Log Warn ''ProvisioningService''
                      (''Unable to check permission for '' @ userId @ '' in '' @ roomId
                         @ '' because the powerlevel requirement is missing for state_default'')
                  else
                    Log Verbose ''ProvisioningService''
                      (''User '' @ userId @ '' in room '' @ roomId @ '' has permission? ''
                         @ ''false'' @ '' (required powerlevel = '' @ required
                         @ '', user powerlevel = '' @ level @ '')''))])
       \<and> reader_calls (trace (snd (hasPermission svc userId roomId w))) = reader_calls (trace w)
       \<and> reader_calls (trace (snd (hasPermission svc' userId roomId w)))
           = reader_calls (trace w) @ [GetStateEvent roomId ''m.room.power_levels'' '''']"
proof -
  have a: "fst (hasPermission svc userId roomId w) = Rejected JUndefined"
    using assms(1) by (simp add: hasPermission_unbound)
  have b: "fst (hasPermission svc' userId roomId w) = Rejected JUndefined"
    using assms(2-5) by (simp add: hasPermission_decision field_value_def)
  have ta: "trace (snd (hasPermission svc userId roomId w)) =
           trace w @
             [Log Verbose ''ProvisioningService''
                (''Checking permission for '' @ userId @ '' in '' @ roomId),
              Log Warn ''ProvisioningService''
                (''Unable to check permission for '' @ userId @ '' in '' @ roomId
                   @ '' because there is no Intent assigned to this service'')]"
    by (simp add: hasPermission_unbound [OF assms(1)] LogService_def)
  have tb: "trace (snd (hasPermission svc' userId roomId w)) =
           trace w @
             [Log Verbose ''ProvisioningService''
                (''Checking permission for '' @ userId @ '' in '' @ roomId),
              GetStateEvent roomId ''m.room.power_levels'' '''',
              (if d = 0 then
                 Log Warn ''ProvisioningService''
                   (''Unable to check permission for '' @ userId @ '' in '' @ roomId
                      @ '' because the powerlevel requirement is missing for state_default'')
               else
                 Log Verbose ''ProvisioningService''
                   (''User '' @ userId @ '' in room '' @ roomId @ '' has permission? ''
                      @ ''false'' @ '' (required powerlevel = ''
                      @ string_of_property (PNumber d) @ '', user powerlevel = ''
                      @ string_of_property (userPowerLevel pl userId) @ '')''))]"
    using assms(2-5)
    by (simp add: hasPermission_def then1_def call_getStateEvent_def checkPowerLevels_def
        LogService_def Let_def field_value_def falsy_def string_of_bool_def)
  then have tb': "\<exists>required level.
            trace (snd (hasPermission svc' userId roomId w)) =
              trace w @
                [Log Verbose ''ProvisioningService''
                   (''Checking permission for '' @ userId @ '' in '' @ roomId),
                 GetStateEvent roomId ''m.room.power_levels'' '''',
                 (if d = 0 then
                    Log Warn ''ProvisioningService''
                      (''Unable to check permission for '' @ userId @ '' in '' @ roomId
                         @ '' because the powerlevel requirement is missing for state_default'')
                  else
                    Log Verbose ''ProvisioningService''
                      (''User '' @ userId @ '' in room '' @ roomId @ '' has permission? ''
                         @ ''false'' @ '' (required powerlevel = '' @ required
                         @ '', user powerlevel = '' @ level @ '')''))]"
    by blast
  have ra: "reader_calls (trace (snd (hasPermission svc userId roomId w))) = reader_calls (trace w)"
    by (simp add: ta reader_calls_def is_reader_call_def)
  have rb: "reader_calls (trace (snd (hasPermission svc' userId roomId w)))
           = reader_calls (trace w) @ [GetStateEvent roomId ''m.room.power_levels'' '''']"
    by (simp add: tb reader_calls_def is_reader_call_def)
  have ops: "fst (createWebhook st svc roomId userId w) = Rejected (JString PERMISSION_ERROR_MESSAGE)"
    "fst (createWebhook st svc' roomId userId w) = Rejected (JString PERMISSION_ERROR_MESSAGE)"
    "fst (getWebhooks st svc roomId userId w) = Rejected (JString PERMISSION_ERROR_MESSAGE)"
    "fst (getWebhooks st svc' roomId userId w) = Rejected (JString PERMISSION_ERROR_MESSAGE)"
    "fst (deleteWebhook st svc roomId userId hookId w) = Rejected (JString PERMISSION_ERROR_MESSAGE)"
    "fst (deleteWebhook st svc' roomId userId hookId w) = Rejected (JString PERMISSION_ERROR_MESSAGE)"
    by (simp_all add: createWebhook_denied [OF a] createWebhook_denied [OF b]
        getWebhooks_denied [OF a] getWebhooks_denied [OF b]
        deleteWebhook_denied [OF a] deleteWebhook_denied [OF b])
  from a b ops ta tb' ra rb show ?thesis
    by blast
qed

theorem no_session_same_outcome_as_denied_witness:
  "intent constructor = None
   \<and> intent (bound_to (Some (snapshot [(alice, 49)] None (Some 50))))
       = Some (reading (Some (snapshot [(alice, 49)] None (Some 50))))
   \<and> getStateEvent (reading (Some (snapshot [(alice, 49)] None (Some 50)))) lobby
       ''m.room.power_levels'' '''' = Resolved (Some (snapshot [(alice, 49)] None (Some 50)))
   \<and> state_default (snapshot [(alice, 49)] None (Some 50)) = Some 50
   \<and> \<not> js_le (PNumber 50) (userPowerLevel (snapshot [(alice, 49)] None (Some 50)) alice)
   \<and> fst (hasPermission constructor alice lobby empty_world) = Rejected JUndefined
   \<and> fst (hasPermission (bound_to (Some (snapshot [(alice, 49)] None (Some 50)))) alice lobby
        empty_world) = Rejected JUndefined
   \<and> fst (createWebhook memory_store constructor lobby alice empty_world)
       = Rejected (JString PERMISSION_ERROR_MESSAGE)
   \<and> fst (createWebhook memory_store (bound_to (Some (snapshot [(alice, 49)] None (Some 50))))
        lobby alice empty_world) = Rejected (JString PERMISSION_ERROR_MESSAGE)
   \<and> reader_calls (trace (snd (hasPermission constructor alice lobby empty_world))) = []
   \<and> reader_calls (trace (snd (hasPermission
        (bound_to (Some (snapshot [(alice, 49)] None (Some 50)))) alice lobby empty_world)))
       = [GetStateEvent lobby ''m.room.power_levels'' '''']"
proof -
  let ?pl = "snapshot [(alice, 49)] None (Some 50)"
  have u: "intent constructor = None"
    by (simp add: constructor_def)
  have i: "intent (bound_to (Some ?pl)) = Some (reading (Some ?pl))"
    by (simp add: bound_to_def)
  have g: "getStateEvent (reading (Some ?pl)) lobby ''m.room.power_levels'' ''''
       = Resolved (Some ?pl)"
    by (simp add: reading_def)
  have d: "state_default ?pl = Some 50"
    by (simp add: snapshot_def)
  have l: "\<not> js_le (PNumber 50) (userPowerLevel ?pl alice)"
    by (simp add: concrete)
  have e: "reader_calls (trace empty_world) = []"
    by (simp add: empty_world_def reader_calls_def)
  show ?thesis
    using u i g d l e
      no_session_same_outcome_as_denied [OF u i g d l, of empty_world memory_store "''0''"]
    by (simp add: reader_calls_def is_reader_call_def)
qed

text \<open>
  C8. When the check succeeds and the store's operation is rejected, the operation of the
  service is rejected with the store's own value: it is neither wrapped nor replaced by the
  permission-error message. This holds for each of the three operations.
\<close>
theorem store_failure_propagates_unchanged:
  assumes "fst (hasPermission svc userId roomId w) = Resolved v"
  shows "(fst (store_createWebhook st roomId userId (storage w)) = Rejected e \<longrightarrow>
            fst (createWebhook st svc roomId userId w) = Rejected e)
       \<and> (fst (store_listWebhooks st roomId (storage w)) = Rejected e \<longrightarrow>
            fst (getWebhooks st svc roomId userId w) = Rejected e)
       \<and> (fst (store_deleteWebhook st roomId hookId (storage w)) = Rejected e \<longrightarrow>
            fst (deleteWebhook st svc roomId userId hookId w) = Rejected e)"
proof -
  have "fst (createWebhook st svc roomId userId w)
          = fst (store_createWebhook st roomId userId (storage w))"
    by (simp add: createWebhook_allowed [OF assms] call_createWebhook_def hasPermission_frame
        LogService_frame split: prod.splits)
  moreover have "fst (getWebhooks st svc roomId userId w)
          = fst (store_listWebhooks st roomId (storage w))"
    by (simp add: getWebhooks_allowed [OF assms] call_listWebhooks_def hasPermission_frame
        LogService_frame split: prod.splits)
  moreover have "fst (deleteWebhook st svc roomId userId hookId w)
          = fst (store_deleteWebhook st roomId hookId (storage w))"
    by (simp add: deleteWebhook_allowed [OF assms] call_deleteWebhook_def hasPermission_frame
        LogService_frame split: prod.splits)
  ultimately show ?thesis by simp
qed

theorem store_failure_propagates_unchanged_witness:
  "fst (hasPermission (bound_to (Some (snapshot [(alice, 100)] None (Some 50)))) alice lobby
      empty_world) = Resolved JUndefined
   \<and> fst (store_createWebhook (failing_store (JOther 7)) lobby alice (storage empty_world))
       = Rejected (JOther 7)
   \<and> fst (createWebhook (failing_store (JOther 7))
        (bound_to (Some (snapshot [(alice, 100)] None (Some 50)))) lobby alice empty_world)
       = Rejected (JOther 7)
   \<and> fst (getWebhooks (failing_store (JOther 7))
        (bound_to (Some (snapshot [(alice, 100)] None (Some 50)))) lobby alice empty_world)
       = Rejected (JOther 7)
   \<and> fst (deleteWebhook (failing_store (JOther 7))
        (bound_to (Some (snapshot [(alice, 100)] None (Some 50)))) lobby alice ''0'' empty_world)
       = Rejected (JOther 7)"
proof -
  let ?svc = "bound_to (Some (snapshot [(alice, 100)] None (Some 50)))"
  have r: "fst (hasPermission ?svc alice lobby empty_world) = Resolved JUndefined"
    by (simp add: hasPermission_bound checkPowerLevels_outcome
      concrete)
  show ?thesis
    using r store_failure_propagates_unchanged [OF r, of "failing_store (JOther 7)" "JOther 7"
        "''0''"]
    by (simp add: failing_store_def)
qed

text \<open>
  C9. When the room has a power-level snapshot that lacks \<^verbatim>\<open>state_default\<close>, the check is
  rejected, whatever the user's level, and each of the three operations rejects; the
  request is never let through.
\<close>
theorem missing_state_default_rejects:
  assumes "intent svc = Some i"
    and "getStateEvent i roomId ''m.room.power_levels'' '''' = Resolved (Some pl)"
    and "state_default pl = None"
  shows "fst (hasPermission svc userId roomId w) = Rejected JUndefined
       \<and> fst (createWebhook st svc roomId userId w) = Rejected (JString PERMISSION_ERROR_MESSAGE)
       \<and> fst (getWebhooks st svc roomId userId w) = Rejected (JString PERMISSION_ERROR_MESSAGE)
       \<and> fst (deleteWebhook st svc roomId userId hookId w)
           = Rejected (JString PERMISSION_ERROR_MESSAGE)"
proof -
  have r: "fst (hasPermission svc userId roomId w) = Rejected JUndefined"
    using assms by (simp add: hasPermission_decision falsy_def field_value_def)
  show ?thesis
    by (simp add: r createWebhook_denied [OF r] getWebhooks_denied [OF r]
        deleteWebhook_denied [OF r])
qed

theorem missing_state_default_rejects_witness:
  "intent (bound_to (Some (snapshot [(alice, 100)] (Some 100) None)))
     = Some (reading (Some (snapshot [(alice, 100)] (Some 100) None)))
   \<and> getStateEvent (reading (Some (snapshot [(alice, 100)] (Some 100) None))) lobby
       ''m.room.power_levels'' '''' = Resolved (Some (snapshot [(alice, 100)] (Some 100) None))
   \<and> state_default (snapshot [(alice, 100)] (Some 100) None) = None
   \<and> fst (hasPermission (bound_to (Some (snapshot [(alice, 100)] (Some 100) None))) alice lobby
        empty_world) = Rejected JUndefined
   \<and> fst (createWebhook memory_store (bound_to (Some (snapshot [(alice, 100)] (Some 100) None)))
        lobby alice empty_world) = Rejected (JString PERMISSION_ERROR_MESSAGE)
   \<and> fst (getWebhooks memory_store (bound_to (Some (snapshot [(alice, 100)] (Some 100) None)))
        lobby alice empty_world) = Rejected (JString PERMISSION_ERROR_MESSAGE)
   \<and> fst (deleteWebhook memory_store (bound_to (Some (snapshot [(alice, 100)] (Some 100) None)))
        lobby alice ''0'' empty_world) = Rejected (JString PERMISSION_ERROR_MESSAGE)"
proof -
  let ?pl = "snapshot [(alice, 100)] (Some 100) None"
  have a: "intent (bound_to (Some ?pl)) = Some (reading (Some ?pl))"
    by (simp add: bound_to_def)
  have b: "getStateEvent (reading (Some ?pl)) lobby ''m.room.power_levels'' ''''
       = Resolved (Some ?pl)"
    by (simp add: reading_def)
  have c: "state_default ?pl = None"
    by (simp add: snapshot_def)
  show ?thesis
    using a b c missing_state_default_rejects [OF a b c, of alice empty_world memory_store "''0''"]
    by simp
qed




end
